theory Spec2Isabelle
  imports Complex_Main "HOL-Library.AList"
begin

section \<open>Python strings\<close>

text \<open>
  A Python \<open>str\<close> is modelled as a \<open>string\<close>: a list of characters, each one a code
  point below 256. Text with code points above 255 is outside the model. The
  functions below are the \<open>str\<close> methods and the two regular expressions that the
  modules use, written out as recursive functions.
\<close>

definition isspace :: "char \<Rightarrow> bool" where
  \<comment> \<open>\<open>str.isspace\<close> on one character, which is also the class \<open>\s\<close> of \<open>re\<close>:
      tab to carriage return, the separators 0x1C to 0x1F, space, NEL and NBSP.\<close>
  "isspace c \<longleftrightarrow> c \<in> set [CHR 0x09, CHR 0x0A, CHR 0x0B, CHR 0x0C, CHR 0x0D,
     CHR 0x1C, CHR 0x1D, CHR 0x1E, CHR 0x1F, CHR 0x20, CHR 0x85, CHR 0xA0]"

definition isdigit :: "char \<Rightarrow> bool" where
  \<comment> \<open>the class \<open>\d\<close> of \<open>re\<close> below code point 256\<close>
  "isdigit c \<longleftrightarrow> c \<in> set ''0123456789''"

definition upper_chars :: "char list" where
  "upper_chars = ''ABCDEFGHIJKLMNOPQRSTUVWXYZ'' @
     [CHR 0xC0, CHR 0xC1, CHR 0xC2, CHR 0xC3, CHR 0xC4, CHR 0xC5, CHR 0xC6, CHR 0xC7,
      CHR 0xC8, CHR 0xC9, CHR 0xCA, CHR 0xCB, CHR 0xCC, CHR 0xCD, CHR 0xCE, CHR 0xCF,
      CHR 0xD0, CHR 0xD1, CHR 0xD2, CHR 0xD3, CHR 0xD4, CHR 0xD5, CHR 0xD6,
      CHR 0xD8, CHR 0xD9, CHR 0xDA, CHR 0xDB, CHR 0xDC, CHR 0xDD, CHR 0xDE]"

definition lower_chars :: "char list" where
  "lower_chars = ''abcdefghijklmnopqrstuvwxyz'' @
     [CHR 0xE0, CHR 0xE1, CHR 0xE2, CHR 0xE3, CHR 0xE4, CHR 0xE5, CHR 0xE6, CHR 0xE7,
      CHR 0xE8, CHR 0xE9, CHR 0xEA, CHR 0xEB, CHR 0xEC, CHR 0xED, CHR 0xEE, CHR 0xEF,
      CHR 0xF0, CHR 0xF1, CHR 0xF2, CHR 0xF3, CHR 0xF4, CHR 0xF5, CHR 0xF6,
      CHR 0xF8, CHR 0xF9, CHR 0xFA, CHR 0xFB, CHR 0xFC, CHR 0xFD, CHR 0xFE]"

definition lower_char :: "char \<Rightarrow> char" where
  "lower_char c = (case map_of (zip upper_chars lower_chars) c of Some d \<Rightarrow> d | None \<Rightarrow> c)"

definition lower :: "string \<Rightarrow> string" where
  \<comment> \<open>\<open>str.lower\<close>\<close>
  "lower s = map lower_char s"

definition strip :: "string \<Rightarrow> string" where
  \<comment> \<open>\<open>str.strip()\<close>: whitespace removed at both ends\<close>
  "strip s = rev (dropWhile isspace (rev (dropWhile isspace s)))"

fun split_on :: "char \<Rightarrow> string \<Rightarrow> string list" where
  \<comment> \<open>\<open>str.split(sep)\<close> for a separator of one character: the empty string gives one
      empty field\<close>
  "split_on sep [] = [[]]"
| "split_on sep (c # cs) =
     (if c = sep then [] # split_on sep cs
      else (case split_on sep cs of [] \<Rightarrow> [[c]] | l # ls \<Rightarrow> (c # l) # ls))"

fun split_ws :: "string \<Rightarrow> string \<Rightarrow> string list" where
  \<comment> \<open>\<open>str.split()\<close>: the maximal runs of non-whitespace; the first argument is the
      run being read\<close>
  "split_ws cur [] = (if cur = [] then [] else [cur])"
| "split_ws cur (c # cs) =
     (if isspace c then (if cur = [] then split_ws [] cs else cur # split_ws [] cs)
      else split_ws (cur @ [c]) cs)"

fun startswith :: "string \<Rightarrow> string \<Rightarrow> bool" where
  \<comment> \<open>\<open>s.startswith(p)\<close>\<close>
  "startswith s [] = True"
| "startswith [] (p # ps) = False"
| "startswith (c # cs) (p # ps) = (c = p \<and> startswith cs ps)"

fun contains :: "string \<Rightarrow> string \<Rightarrow> bool" where
  \<comment> \<open>\<open>p in s\<close>\<close>
  "contains [] p = (p = [])"
| "contains (c # cs) p = (startswith (c # cs) p \<or> contains cs p)"

fun replace_from :: "nat \<Rightarrow> string \<Rightarrow> string \<Rightarrow> string \<Rightarrow> string" where
  \<comment> \<open>the scan of \<open>str.replace\<close>; the counter is the number of characters of a
      matched occurrence still to skip\<close>
  "replace_from k [] old new = []"
| "replace_from (Suc k) (c # cs) old new = replace_from k cs old new"
| "replace_from 0 (c # cs) old new =
     (if startswith (c # cs) old then new @ replace_from (length old - 1) cs old new
      else c # replace_from 0 cs old new)"

definition replace :: "string \<Rightarrow> string \<Rightarrow> string \<Rightarrow> string" where
  \<comment> \<open>\<open>s.replace(old, new)\<close> for a non-empty \<open>old\<close>, as in every call of the modules:
      the occurrences are replaced from the left, without overlap\<close>
  "replace s old new = replace_from 0 s old new"

fun join :: "string \<Rightarrow> string list \<Rightarrow> string" where
  \<comment> \<open>\<open>sep.join(xs)\<close>\<close>
  "join sep [] = []"
| "join sep [x] = x"
| "join sep (x # y # ys) = x @ sep @ join sep (y # ys)"


section \<open>resume_parser.py: \<open>_parse_sections\<close>\<close>

text \<open>
  The dictionary \<open>sections\<close> is an association list in insertion order:
  \<open>AList.update\<close> replaces the value of a key that is present, in place, and appends a
  new key at the end, as a Python \<open>dict\<close> does.
\<close>

type_synonym sections = "(string \<times> string) list"

definition section_headers :: "string list" where
  "section_headers =
    [''experience'', ''work experience'', ''employment'',
     ''education'', ''academic background'',
     ''skills'', ''technical skills'', ''core competencies'',
     ''projects'', ''personal projects'',
     ''certifications'', ''certificates'',
     ''summary'', ''objective'', ''profile'']"

definition header_matches :: "string \<Rightarrow> string \<Rightarrow> bool" where
  \<comment> \<open>\<open>header.lower() in line.lower() and len(line.split()) <= 3\<close>\<close>
  "header_matches line header \<longleftrightarrow>
     contains (lower line) (lower header) \<and> length (split_ws [] line) \<le> 3"

definition find_header :: "string \<Rightarrow> string option" where
  \<comment> \<open>the inner \<open>for header in section_headers\<close>, left at the first match by \<open>break\<close>\<close>
  "find_header line = List.find (header_matches line) section_headers"

definition save_section :: "sections \<Rightarrow> string \<Rightarrow> string list \<Rightarrow> sections" where
  \<comment> \<open>\<open>if current_content: sections[current_section] = '\n'.join(current_content)\<close>\<close>
  "save_section sections current_section current_content =
     (if current_content \<noteq> []
      then AList.update current_section (join ''\<newline>'' current_content) sections
      else sections)"

fun sections_loop :: "sections \<Rightarrow> string \<Rightarrow> string list \<Rightarrow> string list \<Rightarrow> sections" where
  \<comment> \<open>\<open>for line in lines\<close> with its three variables, then the save of the last section\<close>
  "sections_loop sections current_section current_content [] =
     save_section sections current_section current_content"
| "sections_loop sections current_section current_content (raw # rest) =
     (let line = strip raw in
      if line = [] then sections_loop sections current_section current_content rest
      else (case find_header line of
              Some header \<Rightarrow>
                sections_loop (save_section sections current_section current_content)
                  (lower header) [] rest
            | None \<Rightarrow>
                sections_loop sections current_section (current_content @ [line]) rest))"

definition parse_lines :: "string list \<Rightarrow> sections" where
  "parse_lines lines = sections_loop [] ''other'' [] lines"

definition parse_sections :: "string \<Rightarrow> sections" where
  "parse_sections text = parse_lines (split_on CHR ''\<newline>'' text)"

section \<open>question_generator.py: \<open>_parse_questions\<close>\<close>








section \<open>evaluator.py\<close>

text \<open>
  A score is a Python \<open>float\<close> (or the \<open>int\<close> 0 it starts as). It is modelled by the
  rational number it stands for: the rounding of binary floating point is not modelled.
\<close>

record evaluation =
  score :: rat
  strengths :: "string list"
  areas_for_improvement :: "string list"
  feedback :: string
  overall_assessment :: string

subsection \<open>The score pattern\<close>

definition match_score :: "string \<Rightarrow> string option" where
  \<comment> \<open>a match of \<open>(\d+(?:\.\d+)?)/10\<close> that starts at the first character, as its
      group 1. \<open>\d+\<close> takes the whole run of digits: after a shorter run the next character
      is a digit, which neither \<open>.\<close> nor \<open>/\<close> matches. For the same reason the optional
      part, when a full stop and a digit follow, takes its whole run of digits; and
      without the optional part \<open>/\<close> would have to match the full stop.\<close>
  "match_score s =
     (let d1 = takeWhile isdigit s; r1 = dropWhile isdigit s in
      if d1 = [] then None
      else if startswith r1 ''.'' then
        (let d2 = takeWhile isdigit (tl r1); r2 = dropWhile isdigit (tl r1) in
         if d2 \<noteq> [] \<and> startswith r2 ''/10'' then Some (d1 @ ''.'' @ d2) else None)
      else if startswith r1 ''/10'' then Some d1
      else None)"

fun score_search :: "string \<Rightarrow> string option" where
  \<comment> \<open>\<open>re.search\<close>: the match at the leftmost position that has one\<close>
  "score_search [] = None"
| "score_search (c # cs) =
     (case match_score (c # cs) of Some g \<Rightarrow> Some g | None \<Rightarrow> score_search cs)"

definition digit_value :: "char \<Rightarrow> nat" where
  "digit_value c = length (takeWhile (\<lambda>d. d \<noteq> c) ''0123456789'')"

definition decimal_value :: "string \<Rightarrow> nat" where
  "decimal_value ds = foldl (\<lambda>n c. 10 * n + digit_value c) 0 ds"

definition py_float :: "string \<Rightarrow> rat" where
  \<comment> \<open>\<open>float(s)\<close> for the strings the pattern's group can hold: digits, or digits, a
      full stop and digits\<close>
  "py_float s =
     (let d1 = takeWhile isdigit s; r = dropWhile isdigit s in
      if r = [] then of_nat (decimal_value d1)
      else of_nat (decimal_value d1) + of_nat (decimal_value (tl r)) / 10 ^ length (tl r))"

subsection \<open>\<open>_parse_evaluation\<close>\<close>

definition items :: "string \<Rightarrow> string list" where
  \<comment> \<open>\<open>[item.strip() for item in content.split(',')]\<close>\<close>
  "items content = map strip (split_on CHR '','' content)"

definition parse_line :: "evaluation \<times> string option \<Rightarrow> string \<Rightarrow> evaluation \<times> string option" where
  \<comment> \<open>the body of \<open>for line in lines\<close>; the state is the dictionary \<open>evaluation\<close> and
      \<open>current_section\<close>\<close>
  "parse_line st raw =
     (let evaluation = fst st; current_section = snd st; line = strip raw in
      if line = [] then st
      else if startswith line ''Score:'' then
        (case score_search line of
           Some g \<Rightarrow> (evaluation\<lparr>score := py_float g\<rparr>, current_section)
         | None \<Rightarrow> st)
      else if startswith line ''Strengths:'' then
        (let content = strip (replace line ''Strengths:'' []) in
         (if content \<noteq> [] then evaluation\<lparr>strengths := items content\<rparr> else evaluation,
          Some ''strengths''))
      else if startswith line ''Areas for Improvement:'' then
        (let content = strip (replace line ''Areas for Improvement:'' []) in
         (if content \<noteq> [] then evaluation\<lparr>areas_for_improvement := items content\<rparr>
          else evaluation,
          Some ''areas_for_improvement''))
      else if startswith line ''Feedback:'' then
        (evaluation\<lparr>feedback := strip (replace line ''Feedback:'' [])\<rparr>, Some ''feedback'')
      else if startswith line ''Overall Assessment:'' then
        (evaluation\<lparr>overall_assessment := strip (replace line ''Overall Assessment:'' [])\<rparr>,
         Some ''overall_assessment'')
      else
        (case current_section of
           None \<Rightarrow> st
         | Some sec \<Rightarrow>
             if sec = ''strengths''
             then (evaluation\<lparr>strengths := strengths evaluation @ items line\<rparr>, current_section)
             else if sec = ''areas_for_improvement''
             then (evaluation\<lparr>areas_for_improvement :=
                     areas_for_improvement evaluation @ items line\<rparr>, current_section)
             else if sec = ''feedback''
             then (evaluation\<lparr>feedback := feedback evaluation @ '' '' @ line\<rparr>, current_section)
             else if sec = ''overall_assessment''
             then (evaluation\<lparr>overall_assessment :=
                     overall_assessment evaluation @ '' '' @ line\<rparr>, current_section)
             else st))"

definition initial_evaluation :: evaluation where
  "initial_evaluation =
     \<lparr>score = 0, strengths = [], areas_for_improvement = [], feedback = [],
      overall_assessment = []\<rparr>"

definition parse_evaluation :: "string \<Rightarrow> evaluation" where
  "parse_evaluation evaluation_text =
     fst (foldl parse_line (initial_evaluation, None) (split_on CHR ''\<newline>'' evaluation_text))"

subsection \<open>\<open>_get_performance_level\<close>\<close>

definition get_performance_level :: "rat \<Rightarrow> string" where
  "get_performance_level s =
     (if s \<ge> 17 / 2 then ''Excellent''
      else if s \<ge> 7 then ''Good''
      else if s \<ge> 11 / 2 then ''Average''
      else if s \<ge> 4 then ''Below Average''
      else ''Needs Improvement'')"

subsection \<open>\<open>_generate_overall_feedback\<close>\<close>

fun counter_add :: "string \<Rightarrow> (string \<times> nat) list \<Rightarrow> (string \<times> nat) list" where
  \<comment> \<open>one more occurrence of a key in a \<open>Counter\<close>, which keeps the keys in the order
      they were first seen\<close>
  "counter_add x [] = [(x, 1)]"
| "counter_add x ((y, n) # rest) =
     (if x = y then (y, n + 1) # rest else (y, n) # counter_add x rest)"

definition counter :: "string list \<Rightarrow> (string \<times> nat) list" where
  "counter xs = foldl (\<lambda>c x. counter_add x c) [] xs"

fun insert_desc :: "string \<times> nat \<Rightarrow> (string \<times> nat) list \<Rightarrow> (string \<times> nat) list" where
  "insert_desc p [] = [p]"
| "insert_desc p (q # rest) =
     (if snd p \<ge> snd q then p # q # rest else q # insert_desc p rest)"

definition most_common :: "nat \<Rightarrow> (string \<times> nat) list \<Rightarrow> (string \<times> nat) list" where
  \<comment> \<open>\<open>Counter.most_common(n)\<close>: the first \<open>n\<close> entries of a stable sort by count, largest
      first, so that equal counts stay in first-seen order\<close>
  "most_common n c = take n (foldr insert_desc c [])"

definition generate_overall_feedback :: "evaluation list \<Rightarrow> rat \<Rightarrow> string" where
  "generate_overall_feedback evaluations average_score =
     (if evaluations = [] then ''No evaluations available.''
      else
        (let all_strengths = concat (map strengths evaluations);
             all_improvements = concat (map areas_for_improvement evaluations);
             common_strengths = most_common 3 (counter all_strengths);
             common_improvements = most_common 3 (counter all_improvements);
             feedback_parts =
               (if common_strengths \<noteq> []
                then [''Key strengths: '' @ join '', '' (map fst common_strengths)] else []) @
               (if common_improvements \<noteq> []
                then [''Areas to focus on: '' @ join '', '' (map fst common_improvements)]
                else []) @
               [''Overall performance: '' @ get_performance_level average_score]
         in join ''. '' feedback_parts @ ''.''))"

subsection \<open>\<open>evaluate_answer\<close>\<close>

text \<open>
  The language model is outside the program. A call of \<open>generate_content\<close> is a function
  of the prompt and of the state of the outside world: it gives the text of the response,
  or the message of the exception it raised, and the next state. An exception is a value:
  \<open>CustomException prefix cause\<close> is the \<open>CustomException\<close> raised by an \<open>except\<close> block
  whose message is \<open>prefix\<close> followed by \<open>str(cause)\<close>.
\<close>

datatype error = ModelError string | CustomException string error

type_synonym 'w model = "string \<Rightarrow> 'w \<Rightarrow> (string + string) \<times> 'w"

definition evaluation_prompt :: "string \<Rightarrow> string \<Rightarrow> string \<Rightarrow> string" where
  \<comment> \<open>\<open>EVALUATION_PROMPT.format(question=..., answer=..., question_type=...)\<close>\<close>
  "evaluation_prompt q a question_type =
     ''\<newline>Evaluate the following interview answer and provide a detailed assessment.\<newline>\<newline>Question: ''
     @ q @ ''\<newline>Answer: '' @ a @ ''\<newline>Question Type: '' @ question_type @
     ''\<newline>\<newline>Please provide:\<newline>1. A score from 1-10 (where 10 is excellent)\<newline>2. Strengths of the answer\<newline>3. Areas for improvement\<newline>4. Specific feedback\<newline>5. Overall assessment\<newline>\<newline>Format your response as:\<newline>Score: X/10\<newline>Strengths: [list strengths]\<newline>Areas for Improvement: [list areas for improvement]\<newline>Feedback: [detailed feedback]\<newline>Overall Assessment: [summary assessment]\<newline>''"

definition evaluate_answer ::
  "'w model \<Rightarrow> string \<Rightarrow> string \<Rightarrow> string \<Rightarrow> 'w \<Rightarrow> (error + evaluation) \<times> 'w" where
  "evaluate_answer generate_content q a question_type w =
     (case generate_content (evaluation_prompt q a question_type) w of
        (Inl msg, w') \<Rightarrow> (Inl (CustomException ''Failed to evaluate answer: '' (ModelError msg)), w')
      | (Inr response, w') \<Rightarrow> (Inr (parse_evaluation (strip response)), w'))"

subsection \<open>\<open>evaluate_interview_round\<close>\<close>

record qa =
  qa_question :: string
  qa_answer :: string
  qa_type :: "string option"

record round_evaluation =
  evaluations :: "evaluation list"
  average_score :: rat
  total_questions :: nat
  overall_feedback :: string
  performance_level :: string

definition py_round :: "rat \<Rightarrow> nat \<Rightarrow> rat" where
  \<comment> \<open>\<open>round(x, ndigits)\<close> on the exact value: to the nearest multiple of
      \<open>10 ** -ndigits\<close>, a tie to the even one\<close>
  "py_round x ndigits =
     (let y = x * 10 ^ ndigits; f = \<lfloor>y\<rfloor>; r = y - of_int f in
      of_int (if r < 1 / 2 then f else if r > 1 / 2 then f + 1
              else if even f then f else f + 1) / 10 ^ ndigits)"

fun round_loop ::
  "'w model \<Rightarrow> evaluation list \<Rightarrow> rat \<Rightarrow> qa list \<Rightarrow> 'w \<Rightarrow> (error + evaluation list \<times> rat) \<times> 'w" where
  \<comment> \<open>\<open>for qa in questions_answers\<close> with \<open>evaluations\<close> and \<open>total_score\<close>; the first
      exception ends the loop\<close>
  "round_loop generate_content evals total_score [] w = (Inr (evals, total_score), w)"
| "round_loop generate_content evals total_score (x # rest) w =
     (case evaluate_answer generate_content (qa_question x) (qa_answer x)
             (case qa_type x of Some t \<Rightarrow> t | None \<Rightarrow> ''Unknown'') w of
        (Inl e, w') \<Rightarrow> (Inl e, w')
      | (Inr evaluation, w') \<Rightarrow>
          round_loop generate_content (evals @ [evaluation]) (total_score + score evaluation)
            rest w')"

definition evaluate_interview_round ::
  "'w model \<Rightarrow> qa list \<Rightarrow> 'w \<Rightarrow> (error + round_evaluation) \<times> 'w" where
  "evaluate_interview_round generate_content questions_answers w =
     (case round_loop generate_content [] 0 questions_answers w of
        (Inl e, w') \<Rightarrow> (Inl (CustomException ''Failed to evaluate interview round: '' e), w')
      | (Inr (evals, total_score), w') \<Rightarrow>
          (let average = (if questions_answers \<noteq> []
                          then total_score / of_nat (length questions_answers) else 0)
           in (Inr \<lparr>evaluations = evals,
                     average_score = py_round average 2,
                     total_questions = length questions_answers,
                     overall_feedback = generate_overall_feedback evals average,
                     performance_level = get_performance_level average\<rparr>, w')))"

section \<open>report_generator.py\<close>

text \<open>
  A round's evaluation reaches the report as the dictionary built by
  \<open>evaluate_interview_round\<close>, or \<open>None\<close> for a round that was not done.
\<close>

record assessment =
  overall_score :: rat
  assessment_strengths :: "string list"
  assessment_areas_for_improvement :: "string list"
  recommendation :: string

definition present_scores :: "round_evaluation option \<Rightarrow> round_evaluation option \<Rightarrow> rat list" where
  \<comment> \<open>the list \<open>scores\<close>: \<open>if hr_evaluation and hr_evaluation.get('average_score')\<close> is
      false for \<open>None\<close> and also for an average that is zero\<close>
  "present_scores hr_evaluation technical_evaluation =
     (case hr_evaluation of
        Some hr \<Rightarrow> if average_score hr \<noteq> 0 then [average_score hr] else []
      | None \<Rightarrow> []) @
     (case technical_evaluation of
        Some tech \<Rightarrow> if average_score tech \<noteq> 0 then [average_score tech] else []
      | None \<Rightarrow> [])"

definition create_overall_assessment ::
  "round_evaluation option \<Rightarrow> round_evaluation option \<Rightarrow> assessment" where
  \<comment> \<open>the keys \<open>strengths\<close> and \<open>areas_for_improvement\<close> of the dictionary carry the
      prefix \<open>assessment_\<close> here\<close>
  "create_overall_assessment hr_evaluation technical_evaluation =
     (let assessment = \<lparr>overall_score = 0, assessment_strengths = [],
                         assessment_areas_for_improvement = [],
                         recommendation = ''Consider for next round''\<rparr>;
          scores = present_scores hr_evaluation technical_evaluation;
          assessment = (if scores \<noteq> []
                        then assessment\<lparr>overall_score := sum_list scores / of_nat (length scores)\<rparr>
                        else assessment)
      in if overall_score assessment \<ge> 8
         then assessment\<lparr>recommendation := ''Strong candidate - Highly recommended''\<rparr>
         else if overall_score assessment \<ge> 13 / 2
         then assessment\<lparr>recommendation := ''Good candidate - Recommended''\<rparr>
         else if overall_score assessment \<ge> 5
         then assessment\<lparr>recommendation := ''Average candidate - Consider for specific roles''\<rparr>
         else assessment\<lparr>recommendation :=
                ''Needs improvement - Not recommended at this time''\<rparr>)"

definition summary_average_scores ::
  "round_evaluation option \<Rightarrow> round_evaluation option \<Rightarrow> (string \<times> rat) list" where
  \<comment> \<open>\<open>summary['average_scores']\<close> of \<open>_create_interview_summary\<close>: one entry for each
      round that is not \<open>None\<close>\<close>
  "summary_average_scores hr_evaluation technical_evaluation =
     (case hr_evaluation of Some hr \<Rightarrow> [(''hr_round'', average_score hr)] | None \<Rightarrow> []) @
     (case technical_evaluation of
        Some tech \<Rightarrow> [(''technical_round'', average_score tech)] | None \<Rightarrow> [])"

definition summary_overall_average ::
  "round_evaluation option \<Rightarrow> round_evaluation option \<Rightarrow> rat" where
  \<comment> \<open>\<open>summary['overall_average']\<close> of \<open>_create_interview_summary\<close>\<close>
  "summary_overall_average hr_evaluation technical_evaluation =
     (let average_scores = summary_average_scores hr_evaluation technical_evaluation in
      if average_scores \<noteq> []
      then sum_list (map snd average_scores) / of_nat (length average_scores) else 0)"

definition generate_recommendations ::
  "round_evaluation option \<Rightarrow> round_evaluation option \<Rightarrow> string list" where
  "generate_recommendations hr_evaluation technical_evaluation =
     (let recommendations =
        (case hr_evaluation of
           Some hr \<Rightarrow>
             if average_score hr < 6
             then [''Focus on improving communication and interpersonal skills'',
                   ''Practice behavioral interview questions'']
             else []
         | None \<Rightarrow> []) @
        (case technical_evaluation of
           Some tech \<Rightarrow>
             if average_score tech < 6
             then [''Strengthen technical knowledge in core areas'',
                   ''Practice coding problems and system design questions'']
             else []
         | None \<Rightarrow> [])
      in if recommendations = []
         then [''Continue building on current strengths'',
               ''Consider advanced training in specialized areas'']
         else recommendations)"

section \<open>Notions of the specification\<close>

text \<open>
  The definitions of this section are not code of the program: they say what the
  specification's words mean, so that the properties below can be stated.
\<close>

definition level_rank :: "string \<Rightarrow> nat" where
  \<comment> \<open>the order of the five performance levels, lowest first\<close>
  "level_rank l =
     (if l = ''Excellent'' then 4 else if l = ''Good'' then 3 else if l = ''Average'' then 2
      else if l = ''Below Average'' then 1 else 0)"


definition content_lines :: "string list \<Rightarrow> string list" where
  \<comment> \<open>the lines that are not blank, each stripped of the whitespace at its ends\<close>
  "content_lines ls = filter (\<lambda>line. line \<noteq> []) (map strip ls)"

definition remove_blank_lines :: "string \<Rightarrow> string" where
  \<comment> \<open>a text with its blank lines removed and its other lines as they are\<close>
  "remove_blank_lines text =
     join ''\<newline>'' (filter (\<lambda>line. strip line \<noteq> []) (split_on CHR ''\<newline>'' text))"

definition no_header :: "string list \<Rightarrow> bool" where
  \<comment> \<open>no line is recognized as a section header\<close>
  "no_header ls = list_all (\<lambda>line. find_header (strip line) = None) ls"

definition block_after :: "string list \<Rightarrow> string list" where
  \<comment> \<open>the content accumulated from a list of lines before its first header\<close>
  "block_after ls = content_lines (takeWhile (\<lambda>line. find_header (strip line) = None) ls)"

definition stripped_lines :: "string \<Rightarrow> string list" where
  \<comment> \<open>the lines of a text, each stripped of the whitespace at its ends\<close>
  "stripped_lines text = map strip (split_on CHR ''\<newline>'' text)"

definition has_label :: "string \<Rightarrow> string \<Rightarrow> bool" where
  \<comment> \<open>some line of the text starts with the label\<close>
  "has_label label text = list_ex (\<lambda>line. startswith line label) (stripped_lines text)"

definition has_score :: "string \<Rightarrow> bool" where
  \<comment> \<open>some line of the text starts with \<open>Score:\<close> and holds a number followed by \<open>/10\<close>\<close>
  "has_score text =
     list_ex (\<lambda>line. startswith line ''Score:'' \<and> score_search line \<noteq> None) (stripped_lines text)"

definition mean :: "rat list \<Rightarrow> rat" where
  \<comment> \<open>the arithmetic mean of a list of numbers, 0 for the empty list\<close>
  "mean xs = (if xs = [] then 0 else sum_list xs / of_nat (length xs))"

definition constant_model :: "string \<Rightarrow> unit model" where
  \<comment> \<open>a language model that answers every prompt with the same text\<close>
  "constant_model response = (\<lambda>prompt w. (Inr response, w))"

definition hr_round_0 :: round_evaluation where
  \<comment> \<open>the evaluation of a round of one answer that is scored 0\<close>
  "hr_round_0 = \<lparr>evaluations = [\<lparr>score = 0, strengths = [], areas_for_improvement = [],
                             feedback = [], overall_assessment = []\<rparr>],
         average_score = 0, total_questions = 1,
         overall_feedback = ''Overall performance: Needs Improvement.'',
         performance_level = ''Needs Improvement''\<rparr>"

definition technical_round_8 :: round_evaluation where
  \<comment> \<open>the evaluation of a round of one answer that is scored 8\<close>
  "technical_round_8 = \<lparr>evaluations = [\<lparr>score = 8, strengths = [], areas_for_improvement = [],
                             feedback = [], overall_assessment = []\<rparr>],
         average_score = 8, total_questions = 1,
         overall_feedback = ''Overall performance: Good.'',
         performance_level = ''Good''\<rparr>"

definition hr_round_5 :: round_evaluation where
  \<comment> \<open>the evaluation of a round of one answer that is scored 5\<close>
  "hr_round_5 = \<lparr>evaluations = [\<lparr>score = 5, strengths = [], areas_for_improvement = [],
                             feedback = [], overall_assessment = []\<rparr>],
         average_score = 5, total_questions = 1,
         overall_feedback = ''Overall performance: Below Average.'',
         performance_level = ''Below Average''\<rparr>"

definition code_points :: "string \<Rightarrow> int list" where
  \<comment> \<open>a string as the list of its code points\<close>
  "code_points s = map of_char s"

definition spec_average_recommendation :: "int list" where
  \<comment> \<open>the code points of the recommendation for the band from 5.0 as the specification
      writes it: with the dash U+2013 between its two parts\<close>
  "spec_average_recommendation =
     code_points ''Average candidate '' @ [0x2013] @ code_points '' Consider for specific roles''"

section \<open>Properties\<close>

subsection \<open>Performance levels\<close>

text \<open>
  C6. The banding of \<open>_get_performance_level\<close> is total and monotonic: every score (in
  particular every score from 0 to 10) has exactly one of the five levels, namely
  Excellent from 8.5, Good from 7.0, Average from 5.5, Below Average from 4.0 and
  Needs Improvement below; a higher score never has a lower level; and a score on an
  edge has the higher level, so that 7.0 is Good.
\<close>

theorem get_performance_level_bands:
  "get_performance_level s \<in>
     {''Excellent'', ''Good'', ''Average'', ''Below Average'', ''Needs Improvement''}
   \<and> (get_performance_level s = ''Excellent'' \<longleftrightarrow> 17 / 2 \<le> s)
   \<and> (get_performance_level s = ''Good'' \<longleftrightarrow> 7 \<le> s \<and> s < 17 / 2)
   \<and> (get_performance_level s = ''Average'' \<longleftrightarrow> 11 / 2 \<le> s \<and> s < 7)
   \<and> (get_performance_level s = ''Below Average'' \<longleftrightarrow> 4 \<le> s \<and> s < 11 / 2)
   \<and> (get_performance_level s = ''Needs Improvement'' \<longleftrightarrow> s < 4)
   \<and> (s \<le> t \<longrightarrow> level_rank (get_performance_level s) \<le> level_rank (get_performance_level t))
   \<and> get_performance_level 7 = ''Good''"
  by (auto simp: get_performance_level_def level_rank_def)

theorem get_performance_level_bands_witness:
  "(7::rat) \<le> 17 / 2
   \<and> level_rank (get_performance_level 7) \<le> level_rank (get_performance_level (17 / 2))"
proof -
  have h: "(7::rat) \<le> 17 / 2" by simp
  from get_performance_level_bands [of 7 "17 / 2"]
  have "(7::rat) \<le> 17 / 2 \<longrightarrow>
        level_rank (get_performance_level 7) \<le> level_rank (get_performance_level (17 / 2))"
    by blast
  with h show ?thesis by blast
qed

subsection \<open>The evaluation parser\<close>

text \<open>
  C7. The response text with the five lines \<open>Score: 8/10\<close>, \<open>Strengths: clarity, depth\<close>,
  \<open>Areas for Improvement: brevity\<close>, \<open>Feedback: solid answer\<close> and
  \<open>Overall Assessment: strong\<close> is parsed to the score 8, the strengths clarity and
  depth, the one area brevity, the feedback "solid answer" and the overall assessment
  "strong".
\<close>

theorem parse_evaluation_round_trip:
  "parse_evaluation
     ''Score: 8/10\<newline>Strengths: clarity, depth\<newline>Areas for Improvement: brevity\<newline>Feedback: solid answer\<newline>Overall Assessment: strong''
   = \<lparr>score = 8, strengths = [''clarity'', ''depth''], areas_for_improvement = [''brevity''],
      feedback = ''solid answer'', overall_assessment = ''strong''\<rparr>"
  by code_simp

subsection \<open>The questions parser\<close>










subsection \<open>The sections of a resume\<close>

lemma sections_loop_no_header:
  "no_header ls \<Longrightarrow>
   sections_loop s cur c ls = save_section s cur (c @ content_lines ls)"
proof (induction ls arbitrary: c)
  case Nil
  show ?case by (simp add: content_lines_def)
next
  case (Cons raw rest)
  from Cons.prems have h: "find_header (strip raw) = None" and r: "no_header rest"
    by (simp_all add: no_header_def)
  show ?case
  proof (cases "strip raw = []")
    case True
    then show ?thesis using Cons.IH [OF r, of c] by (simp add: content_lines_def)
  next
    case False
    then show ?thesis using h Cons.IH [OF r, of "c @ [strip raw]"]
      by (simp add: content_lines_def)
  qed
qed

text \<open>
  C5 (as amended). For a resume text in which no line is recognized as a section header
  and some line is not blank, \<open>_parse_sections\<close> returns exactly one entry, keyed
  "other": the lines that are not blank, each stripped of the whitespace at its ends, in
  their order, joined by newlines. When every line is blank the result has no entry.
\<close>

theorem parse_sections_no_header:
  assumes "no_header (split_on CHR ''\<newline>'' text)"
  shows "parse_sections text =
     (if content_lines (split_on CHR ''\<newline>'' text) = [] then []
      else [(''other'', join ''\<newline>'' (content_lines (split_on CHR ''\<newline>'' text)))])"
  using sections_loop_no_header [OF assms, of "[]" "''other''" "[]"]
  by (simp add: parse_sections_def parse_lines_def save_section_def)

theorem parse_sections_no_header_witness:
  "no_header (split_on CHR ''\<newline>'' ''Ann\<newline>\<newline> Bo'')
   \<and> parse_sections ''Ann\<newline>\<newline> Bo'' = [(''other'', ''Ann\<newline>Bo'')]"
proof -
  have h: "no_header (split_on CHR ''\<newline>'' ''Ann\<newline>\<newline> Bo'')" by code_simp
  have c: "content_lines (split_on CHR ''\<newline>'' ''Ann\<newline>\<newline> Bo'') = [''Ann'', ''Bo'']"
    by code_simp
  show ?thesis using h parse_sections_no_header [OF h] unfolding c by simp
qed

text \<open>
  The claim as first stated fails: the content is not the input with its blank lines
  removed when a line has whitespace at an end, and the empty text gives no entry.
\<close>

theorem parse_sections_no_header_counterexample:
  "no_header (split_on CHR ''\<newline>'' ''Ann\<newline>\<newline> Bo'')
   \<and> parse_sections ''Ann\<newline>\<newline> Bo'' = [(''other'', ''Ann\<newline>Bo'')]
   \<and> remove_blank_lines ''Ann\<newline>\<newline> Bo'' = ''Ann\<newline> Bo''
   \<and> parse_sections ''Ann\<newline>\<newline> Bo'' \<noteq> [(''other'', remove_blank_lines ''Ann\<newline>\<newline> Bo'')]
   \<and> no_header (split_on CHR ''\<newline>'' '''')
   \<and> parse_sections '''' = []"
  by code_simp

lemma find_header_Nil: "find_header [] = None"
  by code_simp

lemma lower_section_headers: "list_all (\<lambda>h. lower h = h) section_headers"
  by code_simp

lemma find_header_lower: "find_header line = Some k \<Longrightarrow> lower k = k"
proof -
  assume "find_header line = Some k"
  then have "k \<in> set section_headers"
    unfolding find_header_def by (auto simp: find_Some_iff)
  with lower_section_headers show ?thesis by (simp add: list_all_iff)
qed

lemma map_of_save_section:
  "map_of (save_section s cur c) k =
     (if c \<noteq> [] \<and> cur = k then Some (join ''\<newline>'' c) else map_of s k)"
  by (simp add: save_section_def update_conv')

lemma sections_loop_other_key:
  "cur \<noteq> k \<Longrightarrow> list_all (\<lambda>line. find_header (strip line) \<noteq> Some k) ls \<Longrightarrow>
   map_of (sections_loop s cur c ls) k = map_of s k"
proof (induction ls arbitrary: s cur c)
  case Nil
  then show ?case by (simp add: map_of_save_section)
next
  case (Cons raw rest)
  from Cons.prems have h: "find_header (strip raw) \<noteq> Some k"
    and r: "list_all (\<lambda>line. find_header (strip line) \<noteq> Some k) rest" by simp_all
  show ?case
  proof (cases "strip raw = []")
    case True
    then show ?thesis using Cons.IH [OF Cons.prems(1) r] by simp
  next
    case False
    show ?thesis
    proof (cases "find_header (strip raw)")
      case None
      then show ?thesis using False Cons.IH [OF Cons.prems(1) r] by simp
    next
      case (Some k')
      with h have "k' \<noteq> k" by simp
      moreover have "lower k' = k'" using Some by (rule find_header_lower)
      ultimately have "lower k' \<noteq> k" by simp
      from Cons.IH [OF this r] show ?thesis
        using False Some Cons.prems(1) by (simp add: map_of_save_section)
    qed
  qed
qed

lemma sections_loop_same_key:
  "list_all (\<lambda>line. find_header (strip line) \<noteq> Some k) ls \<Longrightarrow>
   map_of (sections_loop s k c ls) k =
     (if c @ block_after ls = [] then map_of s k
      else Some (join ''\<newline>'' (c @ block_after ls)))"
proof (induction ls arbitrary: c)
  case Nil
  show ?case by (simp add: map_of_save_section block_after_def content_lines_def)
next
  case (Cons raw rest)
  from Cons.prems have h: "find_header (strip raw) \<noteq> Some k"
    and r: "list_all (\<lambda>line. find_header (strip line) \<noteq> Some k) rest" by simp_all
  show ?case
  proof (cases "strip raw = []")
    case True
    then have "find_header (strip raw) = None" by (simp add: find_header_Nil)
    then show ?thesis using True Cons.IH [OF r, of c]
      by (simp add: block_after_def content_lines_def)
  next
    case False
    show ?thesis
    proof (cases "find_header (strip raw)")
      case None
      then show ?thesis using False Cons.IH [OF r, of "c @ [strip raw]"]
        by (simp add: block_after_def content_lines_def)
    next
      case (Some k')
      with h have "k' \<noteq> k" by simp
      moreover have "lower k' = k'" using Some by (rule find_header_lower)
      ultimately have ne: "lower k' \<noteq> k" by simp
      have b: "block_after (raw # rest) = []"
        using Some by (simp add: block_after_def content_lines_def)
      show ?thesis
        using False Some sections_loop_other_key [OF ne r] b
        by (simp add: map_of_save_section)
    qed
  qed
qed

lemma sections_loop_prefix:
  assumes "find_header (strip h) = Some k"
    and "list_all (\<lambda>line. find_header (strip line) \<noteq> Some k) post"
  shows "map_of (sections_loop s cur c (pre @ h # post)) k =
     (if block_after post = [] then map_of (sections_loop s cur c pre) k
      else Some (join ''\<newline>'' (block_after post)))"
proof (induction pre arbitrary: s cur c)
  case Nil
  have ne: "strip h \<noteq> []" using assms(1) find_header_Nil by auto
  have lk: "lower k = k" using assms(1) by (rule find_header_lower)
  show ?case
    using ne lk assms(1) sections_loop_same_key [OF assms(2), of "save_section s cur c" "[]"]
    by simp
next
  case (Cons raw rest)
  show ?case
  proof (cases "strip raw = []")
    case True
    then show ?thesis using Cons.IH by simp
  next
    case False
    then show ?thesis using Cons.IH by (cases "find_header (strip raw)") simp_all
  qed
qed

text \<open>
  C10 (as amended). Take a line on which a header phrase is detected, such that no later
  line is detected with the same phrase: it is the last occurrence of its key. When the
  block accumulated after it, up to the next header or the end of the text, is not
  empty, the key is mapped to that block alone, and whatever an earlier occurrence had
  stored is overwritten. When that block is empty, nothing is stored for the last
  occurrence, and the key keeps what the lines before it had given it.
\<close>

theorem parse_sections_repeated_header:
  assumes "split_on CHR ''\<newline>'' text = pre @ h # post"
    and "find_header (strip h) = Some k"
    and "list_all (\<lambda>line. find_header (strip line) \<noteq> Some k) post"
  shows "map_of (parse_sections text) k =
     (if block_after post = [] then map_of (parse_lines pre) k
      else Some (join ''\<newline>'' (block_after post)))"
  using sections_loop_prefix [OF assms(2) assms(3), of "[]" "''other''" "[]" pre] assms(1)
  by (simp add: parse_sections_def parse_lines_def)

theorem parse_sections_repeated_header_witness:
  "split_on CHR ''\<newline>'' ''Skills\<newline>Go\<newline>Skills\<newline>C'' = [''Skills'', ''Go''] @ ''Skills'' # [''C'']
   \<and> find_header (strip ''Skills'') = Some ''skills''
   \<and> list_all (\<lambda>line. find_header (strip line) \<noteq> Some ''skills'') [''C'']
   \<and> block_after [''C''] = [''C'']
   \<and> map_of (parse_sections ''Skills\<newline>Go\<newline>Skills\<newline>C'') ''skills'' = Some ''C''"
proof -
  have h1: "split_on CHR ''\<newline>'' ''Skills\<newline>Go\<newline>Skills\<newline>C''
              = [''Skills'', ''Go''] @ ''Skills'' # [''C'']"
    by code_simp
  have h2: "find_header (strip ''Skills'') = Some ''skills''" by code_simp
  have h3: "list_all (\<lambda>line. find_header (strip line) \<noteq> Some ''skills'') [''C'']"
    by code_simp
  have b: "block_after [''C''] = [''C'']" by code_simp
  have "map_of (parse_sections ''Skills\<newline>Go\<newline>Skills\<newline>C'') ''skills'' = Some ''C''"
    using parse_sections_repeated_header [OF h1 h2 h3] unfolding b by simp
  with h1 h2 h3 b show ?thesis by blast
qed

text \<open>
  The claim as first stated fails when nothing follows the second occurrence: the block
  between the two occurrences stays in the result.
\<close>

theorem parse_sections_repeated_header_counterexample:
  "split_on CHR ''\<newline>'' ''Skills\<newline>Go\<newline>Skills'' = [''Skills'', ''Go'', ''Skills'']
   \<and> find_header (strip ''Skills'') = Some ''skills''
   \<and> find_header (strip ''Go'') = None
   \<and> parse_sections ''Skills\<newline>Go\<newline>Skills'' = [(''skills'', ''Go'')]"
  by code_simp

subsection \<open>Defaults and range of the evaluation parser\<close>

lemma py_float_nonneg: "0 \<le> py_float g"
  by (simp add: py_float_def Let_def)

lemma parse_line_score_nonneg:
  "0 \<le> score (fst st) \<Longrightarrow> 0 \<le> score (fst (parse_line st raw))"
  by (simp add: parse_line_def Let_def py_float_nonneg split: option.splits)

lemma foldl_score_nonneg:
  "0 \<le> score (fst st) \<Longrightarrow> 0 \<le> score (fst (foldl parse_line st ls))"
  by (induction ls arbitrary: st) (simp_all add: parse_line_score_nonneg)

lemma parse_line_score_keep:
  "\<not> (startswith (strip raw) ''Score:'' \<and> score_search (strip raw) \<noteq> None) \<Longrightarrow>
   score (fst (parse_line st raw)) = score (fst st)"
  by (auto simp add: parse_line_def Let_def split: option.splits)

lemma foldl_score_keep:
  "list_all (\<lambda>raw. \<not> (startswith (strip raw) ''Score:'' \<and> score_search (strip raw) \<noteq> None)) ls
   \<Longrightarrow> score (fst (foldl parse_line st ls)) = score (fst st)"
  by (induction ls arbitrary: st) (simp_all add: parse_line_score_keep)

lemma no_score_default:
  assumes "\<not> has_score text"
  shows "score (parse_evaluation text) = 0"
proof -
  from assms have "list_all (\<lambda>raw. \<not> (startswith (strip raw) ''Score:'' \<and> score_search (strip raw) \<noteq> None))
     (split_on CHR ''\<newline>'' text)"
    by (simp add: has_score_def stripped_lines_def list_ex_iff list_all_iff)
  from foldl_score_keep [OF this] show ?thesis
    by (simp add: parse_evaluation_def initial_evaluation_def)
qed

lemma parse_line_strengths_keep:
  "\<not> startswith (strip raw) ''Strengths:'' \<Longrightarrow>
   strengths (fst st) = [] \<and> snd st \<noteq> Some ''strengths'' \<Longrightarrow>
   strengths (fst (parse_line st raw)) = [] \<and> snd (parse_line st raw) \<noteq> Some ''strengths''"
  by (auto simp add: parse_line_def Let_def split: option.splits)

lemma parse_line_areas_keep:
  "\<not> startswith (strip raw) ''Areas for Improvement:'' \<Longrightarrow>
   areas_for_improvement (fst st) = [] \<and> snd st \<noteq> Some ''areas_for_improvement'' \<Longrightarrow>
   areas_for_improvement (fst (parse_line st raw)) = []
     \<and> snd (parse_line st raw) \<noteq> Some ''areas_for_improvement''"
  by (auto simp add: parse_line_def Let_def split: option.splits)

lemma parse_line_feedback_keep:
  "\<not> startswith (strip raw) ''Feedback:'' \<Longrightarrow>
   feedback (fst st) = [] \<and> snd st \<noteq> Some ''feedback'' \<Longrightarrow>
   feedback (fst (parse_line st raw)) = [] \<and> snd (parse_line st raw) \<noteq> Some ''feedback''"
  by (auto simp add: parse_line_def Let_def split: option.splits)

lemma parse_line_overall_keep:
  "\<not> startswith (strip raw) ''Overall Assessment:'' \<Longrightarrow>
   overall_assessment (fst st) = [] \<and> snd st \<noteq> Some ''overall_assessment'' \<Longrightarrow>
   overall_assessment (fst (parse_line st raw)) = []
     \<and> snd (parse_line st raw) \<noteq> Some ''overall_assessment''"
  by (auto simp add: parse_line_def Let_def split: option.splits)

lemma foldl_invariant:
  assumes step: "\<And>st raw. \<not> startswith (strip raw) label \<Longrightarrow> I st \<Longrightarrow> I (parse_line st raw)"
  shows "list_all (\<lambda>raw. \<not> startswith (strip raw) label) ls \<Longrightarrow> I st \<Longrightarrow>
         I (foldl parse_line st ls)"
  by (induction ls arbitrary: st) (simp_all add: step)

lemma no_label_lines:
  "\<not> has_label label text \<Longrightarrow>
   list_all (\<lambda>raw. \<not> startswith (strip raw) label) (split_on CHR ''\<newline>'' text)"
  by (simp add: has_label_def stripped_lines_def list_ex_iff list_all_iff)

lemma no_strengths_default:
  assumes "\<not> has_label ''Strengths:'' text"
  shows "strengths (parse_evaluation text) = []"
proof -
  have "strengths (fst (foldl parse_line (initial_evaluation, None) (split_on CHR ''\<newline>'' text))) = []
      \<and> snd (foldl parse_line (initial_evaluation, None) (split_on CHR ''\<newline>'' text))
          \<noteq> Some ''strengths''"
    by (rule foldl_invariant [where label = "''Strengths:''", OF _ no_label_lines [OF assms]])
       (simp_all add: parse_line_strengths_keep initial_evaluation_def)
  then show ?thesis by (simp add: parse_evaluation_def)
qed

lemma no_areas_default:
  assumes "\<not> has_label ''Areas for Improvement:'' text"
  shows "areas_for_improvement (parse_evaluation text) = []"
proof -
  have "areas_for_improvement
          (fst (foldl parse_line (initial_evaluation, None) (split_on CHR ''\<newline>'' text))) = []
      \<and> snd (foldl parse_line (initial_evaluation, None) (split_on CHR ''\<newline>'' text))
          \<noteq> Some ''areas_for_improvement''"
    by (rule foldl_invariant [where label = "''Areas for Improvement:''",
          OF _ no_label_lines [OF assms]])
       (simp_all add: parse_line_areas_keep initial_evaluation_def)
  then show ?thesis by (simp add: parse_evaluation_def)
qed

lemma no_feedback_default:
  assumes "\<not> has_label ''Feedback:'' text"
  shows "feedback (parse_evaluation text) = []"
proof -
  have "feedback (fst (foldl parse_line (initial_evaluation, None) (split_on CHR ''\<newline>'' text))) = []
      \<and> snd (foldl parse_line (initial_evaluation, None) (split_on CHR ''\<newline>'' text))
          \<noteq> Some ''feedback''"
    by (rule foldl_invariant [where label = "''Feedback:''", OF _ no_label_lines [OF assms]])
       (simp_all add: parse_line_feedback_keep initial_evaluation_def)
  then show ?thesis by (simp add: parse_evaluation_def)
qed

lemma no_overall_default:
  assumes "\<not> has_label ''Overall Assessment:'' text"
  shows "overall_assessment (parse_evaluation text) = []"
proof -
  have "overall_assessment
          (fst (foldl parse_line (initial_evaluation, None) (split_on CHR ''\<newline>'' text))) = []
      \<and> snd (foldl parse_line (initial_evaluation, None) (split_on CHR ''\<newline>'' text))
          \<noteq> Some ''overall_assessment''"
    by (rule foldl_invariant [where label = "''Overall Assessment:''",
          OF _ no_label_lines [OF assms]])
       (simp_all add: parse_line_overall_keep initial_evaluation_def)
  then show ?thesis by (simp add: parse_evaluation_def)
qed

text \<open>
  C9. The evaluation parser is a total function of its text: the model has no branch
  that raises, as the source has none, and every result is a record of the five fields.
  A field whose label starts no line of the text keeps its default: the score 0 (also
  when the lines that start with \<open>Score:\<close> hold no number followed by \<open>/10\<close>), the
  empty lists of strengths and of areas for improvement, the empty feedback and the
  empty overall assessment. The empty text gives all five defaults.
\<close>

theorem parse_evaluation_defaults:
  "(\<not> has_score text \<longrightarrow> score (parse_evaluation text) = 0)
   \<and> (\<not> has_label ''Strengths:'' text \<longrightarrow> strengths (parse_evaluation text) = [])
   \<and> (\<not> has_label ''Areas for Improvement:'' text
        \<longrightarrow> areas_for_improvement (parse_evaluation text) = [])
   \<and> (\<not> has_label ''Feedback:'' text \<longrightarrow> feedback (parse_evaluation text) = [])
   \<and> (\<not> has_label ''Overall Assessment:'' text
        \<longrightarrow> overall_assessment (parse_evaluation text) = [])
   \<and> parse_evaluation [] = initial_evaluation"
proof -
  have "parse_evaluation [] = initial_evaluation"
    by (simp add: parse_evaluation_def parse_line_def strip_def)
  then show ?thesis
    using no_score_default no_strengths_default no_areas_default no_feedback_default
      no_overall_default by blast
qed

theorem parse_evaluation_defaults_witness:
  "\<not> has_score ''Feedback: ok\<newline>more''
   \<and> \<not> has_label ''Strengths:'' ''Feedback: ok\<newline>more''
   \<and> \<not> has_label ''Areas for Improvement:'' ''Feedback: ok\<newline>more''
   \<and> \<not> has_label ''Overall Assessment:'' ''Feedback: ok\<newline>more''
   \<and> score (parse_evaluation ''Feedback: ok\<newline>more'') = 0
   \<and> strengths (parse_evaluation ''Feedback: ok\<newline>more'') = []
   \<and> areas_for_improvement (parse_evaluation ''Feedback: ok\<newline>more'') = []
   \<and> overall_assessment (parse_evaluation ''Feedback: ok\<newline>more'') = []"
proof -
  have h1: "\<not> has_score ''Feedback: ok\<newline>more''" by code_simp
  have h2: "\<not> has_label ''Strengths:'' ''Feedback: ok\<newline>more''" by code_simp
  have h3: "\<not> has_label ''Areas for Improvement:'' ''Feedback: ok\<newline>more''" by code_simp
  have h4: "\<not> has_label ''Overall Assessment:'' ''Feedback: ok\<newline>more''" by code_simp
  show ?thesis
    using h1 h2 h3 h4 parse_evaluation_defaults [of "''Feedback: ok\<newline>more''"] by blast
qed

text \<open>
  C2 (as amended). The score of a parsed evaluation is never negative, and it is 0 when
  no line that starts with \<open>Score:\<close> holds a number followed by \<open>/10\<close>. The score has no
  upper bound.
\<close>

theorem parse_evaluation_score_range:
  "0 \<le> score (parse_evaluation text)
   \<and> (\<not> has_score text \<longrightarrow> score (parse_evaluation text) = 0)"
proof -
  have "0 \<le> score (parse_evaluation text)"
    unfolding parse_evaluation_def
    by (rule foldl_score_nonneg) (simp add: initial_evaluation_def)
  then show ?thesis using no_score_default by blast
qed

theorem parse_evaluation_score_range_witness:
  "\<not> has_score ''Score: high'' \<and> score (parse_evaluation ''Score: high'') = 0"
proof -
  have h: "\<not> has_score ''Score: high''" by code_simp
  show ?thesis using h parse_evaluation_score_range [of "''Score: high''"] by blast
qed

text \<open>
  The claim as first stated fails: the number in front of \<open>/10\<close> is taken as it is, and
  it can be above 10.
\<close>

theorem parse_evaluation_score_range_counterexample:
  "score (parse_evaluation ''Score: 99/10'') = 99 \<and> (10::rat) < 99"
  by code_simp

subsection \<open>The evaluation of a round\<close>







subsection \<open>The report\<close>

text \<open>
  C3. The overall score of a report should be the arithmetic mean of the average scores
  of the rounds that are present. \<open>_create_overall_assessment\<close> leaves out a round
  whose average score is 0: with an HR round of average 0 and a Technical round of
  average 8, both as \<open>evaluate_interview_round\<close> returns them, the overall score is 8,
  while the mean is 4, which is also what \<open>_create_interview_summary\<close> computes as
  \<open>overall_average\<close> for the same report.
\<close>

theorem create_overall_assessment_zero_round:
  "evaluate_interview_round (constant_model ''Score: 0/10'') 
       [\<lparr>qa_question = ''Why?'', qa_answer = ''So.'', qa_type = Some ''HR''\<rparr>] () = (Inr hr_round_0, ())
   \<and> evaluate_interview_round (constant_model ''Score: 8/10'') 
       [\<lparr>qa_question = ''Why?'', qa_answer = ''So.'', qa_type = Some ''HR''\<rparr>] ()
       = (Inr technical_round_8, ())
   \<and> overall_score (create_overall_assessment (Some hr_round_0) (Some technical_round_8)) = 8
   \<and> mean [average_score hr_round_0, average_score technical_round_8] = 4
   \<and> summary_overall_average (Some hr_round_0) (Some technical_round_8) = 4"
  by code_simp

text \<open>
  C4 (as amended). A report built from an HR round with the average score 5.0 and no
  Technical round has the overall score 5.0, the recommendation
  "Average candidate - Consider for specific roles" and, as its list of recommendations,
  the two HR tips. For every report, the recommendation is the banding of the overall
  score: from 8.0 "Strong candidate - Highly recommended", from 6.5
  "Good candidate - Recommended", from 5.0 "Average candidate - Consider for specific
  roles", and below "Needs improvement - Not recommended at this time". The dash of the
  four strings is the hyphen-minus, code point 0x2D.
\<close>

theorem report_recommendation:
  "(average_score hr = 5 \<longrightarrow>
      overall_score (create_overall_assessment (Some hr) None) = 5
      \<and> recommendation (create_overall_assessment (Some hr) None)
          = ''Average candidate - Consider for specific roles''
      \<and> generate_recommendations (Some hr) None
          = [''Focus on improving communication and interpersonal skills'',
             ''Practice behavioral interview questions''])
   \<and> recommendation (create_overall_assessment h t) =
       (if overall_score (create_overall_assessment h t) \<ge> 8
        then ''Strong candidate - Highly recommended''
        else if overall_score (create_overall_assessment h t) \<ge> 13 / 2
        then ''Good candidate - Recommended''
        else if overall_score (create_overall_assessment h t) \<ge> 5
        then ''Average candidate - Consider for specific roles''
        else ''Needs improvement - Not recommended at this time'')"
proof -
  have a: "overall_score (create_overall_assessment (Some hr) None) = 5
      \<and> recommendation (create_overall_assessment (Some hr) None)
          = ''Average candidate - Consider for specific roles''
      \<and> generate_recommendations (Some hr) None
          = [''Focus on improving communication and interpersonal skills'',
             ''Practice behavioral interview questions'']"
    if "average_score hr = 5"
    using that
    by (simp add: create_overall_assessment_def present_scores_def
        generate_recommendations_def)
  have b: "recommendation (create_overall_assessment h t) =
       (if overall_score (create_overall_assessment h t) \<ge> 8
        then ''Strong candidate - Highly recommended''
        else if overall_score (create_overall_assessment h t) \<ge> 13 / 2
        then ''Good candidate - Recommended''
        else if overall_score (create_overall_assessment h t) \<ge> 5
        then ''Average candidate - Consider for specific roles''
        else ''Needs improvement - Not recommended at this time'')"
  proof -
    define a where "a = (if present_scores h t \<noteq> []
        then \<lparr>overall_score = sum_list (present_scores h t)
                               / of_nat (length (present_scores h t)),
              assessment_strengths = [], assessment_areas_for_improvement = [],
              recommendation = ''Consider for next round''\<rparr>
        else \<lparr>overall_score = 0, assessment_strengths = [],
              assessment_areas_for_improvement = [],
              recommendation = ''Consider for next round''\<rparr>)"
    have c: "create_overall_assessment h t =
        (if overall_score a \<ge> 8
         then a\<lparr>recommendation := ''Strong candidate - Highly recommended''\<rparr>
         else if overall_score a \<ge> 13 / 2
         then a\<lparr>recommendation := ''Good candidate - Recommended''\<rparr>
         else if overall_score a \<ge> 5
         then a\<lparr>recommendation := ''Average candidate - Consider for specific roles''\<rparr>
         else a\<lparr>recommendation := ''Needs improvement - Not recommended at this time''\<rparr>)"
      unfolding create_overall_assessment_def Let_def a_def
      by (cases "present_scores h t = []") simp_all
    have o: "overall_score (create_overall_assessment h t) = overall_score a"
      unfolding c by simp
    show ?thesis unfolding o unfolding c by simp
  qed
  show ?thesis using a b by blast
qed

theorem report_recommendation_witness:
  "average_score hr_round_5 = 5
   \<and> overall_score (create_overall_assessment (Some hr_round_5) None) = 5
   \<and> recommendation (create_overall_assessment (Some hr_round_5) None)
          = ''Average candidate - Consider for specific roles''
   \<and> generate_recommendations (Some hr_round_5) None
          = [''Focus on improving communication and interpersonal skills'',
             ''Practice behavioral interview questions'']"
proof -
  have h: "average_score hr_round_5 = 5" by (simp add: hr_round_5_def)
  show ?thesis using h report_recommendation [of hr_round_5] by blast
qed

text \<open>
  The claim as first stated fails: the recommendation is not exactly the string of the
  specification, which has the dash U+2013 where the code has a hyphen-minus.
\<close>

theorem report_recommendation_counterexample:
  "average_score hr_round_5 = 5
   \<and> code_points (recommendation (create_overall_assessment (Some hr_round_5) None))
        \<noteq> spec_average_recommendation
   \<and> code_points (recommendation (create_overall_assessment (Some hr_round_5) None)) ! 18 = 0x2D
   \<and> spec_average_recommendation ! 18 = 0x2013"
  by code_simp

end
